theory Spec2Isabelle
  imports Main
begin

section \<open>Text-to-SQL assistant: the pipeline of gradio\_app.py and app.py\<close>

text \<open>
  Both front ends run the same three steps: a model call that turns the question into
  SQL, the execution of that SQL on the database, and a second model call that turns
  the result into an answer. The database (\<open>db\<close>) and the chat model (\<open>llm\<close>) are
  external collaborators. They are modelled as arbitrary functions on an abstract world
  \<open>'w\<close>: each call takes the world, returns either a raised exception or a value, and
  the next world. Nothing is assumed about them, so a theorem about the pipeline holds
  for every database and every model, deterministic or not.

  Python strings are \<open>string\<close>; each \<open>char\<close> stands for one code point below 256.
  The type \<open>exception\<close> stands for the instances of Python's class \<open>Exception\<close>,
  which is what every \<open>except Exception\<close> clause of the source catches; \<open>message\<close> is
  what \<open>str(e)\<close> returns. The content of a model response is a string, as the source
  treats it (\<open>response.content.strip()\<close>).
\<close>

subsection \<open>Python values the code handles\<close>

datatype exception = Exception (message: string)

text \<open>
  \<open>str.isspace\<close> on the code points below 256: tab to carriage return, the four
  separators 0x1C to 0x1F, the space, NEL (0x85) and the no-break space (0xA0).
\<close>

definition isspace :: "char \<Rightarrow> bool" where
  "isspace c =
     (let n = (of_char c :: nat)
      in (9 \<le> n \<and> n \<le> 13) \<or> (28 \<le> n \<and> n \<le> 32) \<or> n = 133 \<or> n = 160)"

text \<open>\<open>s.strip()\<close>: whitespace removed at both ends.\<close>

definition strip :: "string \<Rightarrow> string" where
  "strip s = rev (dropWhile isspace (rev (dropWhile isspace s)))"

text \<open>
  The value \<open>None\<close> is \<open>None\<close> of an option type. \<open>truthy\<close> is the test of
  \<open>if x:\<close> on a value that is a string or \<open>None\<close>: both \<open>None\<close> and the empty
  string are false. \<open>py_str\<close> is \<open>str(x)\<close>, which is also what a template
  placeholder or an f-string makes of \<open>x\<close>.
\<close>

fun truthy :: "string option \<Rightarrow> bool" where
  "truthy None = False"
| "truthy (Some s) = (s \<noteq> [])"

fun py_str :: "string option \<Rightarrow> string" where
  "py_str None = ''None''"
| "py_str (Some s) = s"

subsection \<open>The collaborators and the state\<close>

text \<open>
  A prompt is the list of (role, text) messages that \<open>format_messages\<close> builds.
  \<open>db.get_table_info()\<close>, \<open>db.run(query)\<close> and \<open>llm.invoke(messages)\<close> each may
  raise; \<open>invoke\<close> returns the content of the response.
\<close>

type_synonym prompt = "(string \<times> string) list"

record 'w database =
  get_table_info :: "'w \<Rightarrow> (exception + string) \<times> 'w"
  run :: "string \<Rightarrow> 'w \<Rightarrow> (exception + string) \<times> 'w"

record 'w chat_model =
  invoke :: "prompt \<Rightarrow> 'w \<Rightarrow> (exception + string) \<times> 'w"

text \<open>
  The trace records every call that reaches a collaborator, in order, with its
  argument and its outcome. It is how the theorems below count calls and compare
  what was executed with what was returned.
\<close>

datatype event =
    GetTableInfo "exception + string"
  | DbRun string "exception + string"
  | LlmInvoke prompt "exception + string"

record 'w state =
  world :: 'w
  trace :: "event list"
  query_history :: "(string \<times> string) list"

type_synonym ('w, 'a) comp = "'w state \<Rightarrow> (exception + 'a) \<times> 'w state"

definition ret :: "'a \<Rightarrow> ('w, 'a) comp" where
  "ret v s = (Inr v, s)"

definition raise :: "exception \<Rightarrow> ('w, 'a) comp" where
  "raise e s = (Inl e, s)"

text \<open>Sequencing: an exception raised by the first statement skips the rest.\<close>

definition andthen :: "('w, 'a) comp \<Rightarrow> ('a \<Rightarrow> ('w, 'b) comp) \<Rightarrow> ('w, 'b) comp" where
  "andthen m f s = (case m s of (Inl e, s') \<Rightarrow> (Inl e, s') | (Inr v, s') \<Rightarrow> f v s')"

text \<open>\<open>try: body except Exception as e: handler\<close>.\<close>

definition try_except :: "('w, 'a) comp \<Rightarrow> (exception \<Rightarrow> ('w, 'a) comp) \<Rightarrow> ('w, 'a) comp" where
  "try_except body handler s =
     (case body s of (Inl e, s') \<Rightarrow> handler e s' | (Inr v, s') \<Rightarrow> (Inr v, s'))"

definition call_get_table_info :: "'w database \<Rightarrow> ('w, string) comp" where
  "call_get_table_info db s =
     (case get_table_info db (world s) of
        (r, w') \<Rightarrow> (r, s\<lparr>world := w', trace := trace s @ [GetTableInfo r]\<rparr>))"

definition call_run :: "'w database \<Rightarrow> string \<Rightarrow> ('w, string) comp" where
  "call_run db query s =
     (case run db query (world s) of
        (r, w') \<Rightarrow> (r, s\<lparr>world := w', trace := trace s @ [DbRun query r]\<rparr>))"

definition call_invoke :: "'w chat_model \<Rightarrow> prompt \<Rightarrow> ('w, string) comp" where
  "call_invoke llm p s =
     (case invoke llm p (world s) of
        (r, w') \<Rightarrow> (r, s\<lparr>world := w', trace := trace s @ [LlmInvoke p r]\<rparr>))"

subsection \<open>The prompt templates\<close>

definition nl :: string where
  "nl = [CHR 0x0A]"

definition sql_system :: string where
  "sql_system =
     ''Given an input question, convert it to a SQL query. No pre-amble. '' @
     ''Please do not return anything else apart from the SQL query, no prefix or suffix quotes, no sql keyword, nothing please''"

definition answer_system :: string where
  "answer_system =
     ''Given an input question and SQL response, convert it to a natural language answer. No pre-amble.''"

text \<open>
  The human messages, with the placeholders filled. The continuation lines of a
  template keep the indentation they have in the source: four spaces in
  \<open>write_sql_query\<close> of both files, and for the answer template \<open>ind\<close>, which is
  four spaces in \<open>answer_user_query\<close> and eight in \<open>process_query\<close>.
\<close>

definition sql_human :: "string \<Rightarrow> string \<Rightarrow> string" where
  "sql_human schema question =
     ''Based on the table schema below, write a SQL query that would answer the user'' @ [CHR 0x27] @
     ''s question:'' @ nl @
     ''    '' @ schema @ nl @
     nl @
     ''    Question: '' @ question @ nl @
     ''    SQL Query:''"

definition sql_prompt :: "string \<Rightarrow> string \<Rightarrow> prompt" where
  "sql_prompt schema question =
     [(''system'', sql_system), (''human'', sql_human schema question)]"

definition answer_human :: "string \<Rightarrow> string \<Rightarrow> string \<Rightarrow> string \<Rightarrow> string option \<Rightarrow> string" where
  "answer_human ind schema question query response =
     ''Based on the table schema below, question, sql query, and sql response, write a natural language response:'' @ nl @
     ind @ schema @ nl @
     nl @
     ind @ ''Question: '' @ question @ nl @
     ind @ ''SQL Query: '' @ query @ nl @
     ind @ ''SQL Response: '' @ py_str response"

definition answer_prompt :: "string \<Rightarrow> string \<Rightarrow> string \<Rightarrow> string \<Rightarrow> string option \<Rightarrow> prompt" where
  "answer_prompt ind schema question query response =
     [(''system'', answer_system), (''human'', answer_human ind schema question query response)]"

subsection \<open>gradio\_app.py\<close>

text \<open>
  \<open>db\<close> and \<open>llm\<close> are module globals there, created at import; they are the
  first two arguments here. \<open>write_sql_query()\<close> returns the closure
  \<open>generate_sql\<close>, which is called once with \<open>{"question": question}\<close>.
\<close>

definition get_schema_gradio :: "'w database \<Rightarrow> ('w, string) comp" where
  "get_schema_gradio db = call_get_table_info db"

text \<open>\<open>run_query\<close> returns the pair \<open>(result, None)\<close> or \<open>(None, str(e))\<close>.\<close>

definition run_query_gradio ::
  "'w database \<Rightarrow> string \<Rightarrow> ('w, string option \<times> string option) comp" where
  "run_query_gradio db query =
     try_except
       (andthen (call_run db query) (\<lambda>result. ret (Some result, None)))
       (\<lambda>e. ret (None, Some (message e)))"

definition generate_sql_gradio :: "'w database \<Rightarrow> 'w chat_model \<Rightarrow> string \<Rightarrow> ('w, string) comp" where
  "generate_sql_gradio db llm question =
     andthen (get_schema_gradio db) (\<lambda>schema.
     andthen (call_invoke llm (sql_prompt schema question)) (\<lambda>content.
     ret (strip content)))"

definition process_query ::
  "'w database \<Rightarrow> 'w chat_model \<Rightarrow> string \<Rightarrow> ('w, string \<times> string \<times> string) comp" where
  "process_query db llm question =
     (if strip question = [] then ret (''Please enter a question.'', [], [])
      else
        try_except
          (andthen (generate_sql_gradio db llm question) (\<lambda>generated_sql.
           andthen (run_query_gradio db generated_sql) (\<lambda>(raw_results, sql_error).
           if truthy sql_error then ret (''SQL Error: '' @ py_str sql_error, generated_sql, [])
           else
             andthen (get_schema_gradio db) (\<lambda>schema.
             andthen (call_invoke llm
                        (answer_prompt ''        '' schema question generated_sql raw_results))
               (\<lambda>natural_response.
             ret (natural_response, generated_sql, py_str raw_results))))))
          (\<lambda>e. ret (''Error: '' @ message e, [], [])))"

subsection \<open>app.py\<close>

text \<open>
  Here the handles are parameters, and \<open>init_database\<close> and \<open>get_llm\<close> return
  \<open>None\<close> when the set-up fails: a handle is an option, and \<open>if db:\<close> tests it.
\<close>

definition get_schema_app :: "'w database option \<Rightarrow> ('w, string) comp" where
  "get_schema_app db =
     (case db of
        Some d \<Rightarrow> call_get_table_info d
      | None \<Rightarrow> ret ''Database not connected'')"

definition run_query_app ::
  "'w database option \<Rightarrow> string \<Rightarrow> ('w, string option \<times> string option) comp" where
  "run_query_app db query =
     (case db of
        Some d \<Rightarrow>
          try_except
            (andthen (call_run d query) (\<lambda>result. ret (Some result, None)))
            (\<lambda>e. ret (None, Some (message e)))
      | None \<Rightarrow> ret (None, Some ''Database not connected''))"

definition generate_sql_app ::
  "'w chat_model \<Rightarrow> 'w database option \<Rightarrow> string \<Rightarrow> ('w, string) comp" where
  "generate_sql_app llm db question =
     andthen (get_schema_app db) (\<lambda>schema.
     andthen (call_invoke llm (sql_prompt schema question)) (\<lambda>content.
     ret (strip content)))"

text \<open>
  \<open>answer_user_query\<close> returns the response of the second model call (here its
  content) or raises: what the generation raised, or \<open>Exception("SQL Error: ...")\<close>.
\<close>

definition answer_user_query ::
  "string \<Rightarrow> 'w chat_model \<Rightarrow> 'w database option \<Rightarrow> ('w, string) comp" where
  "answer_user_query query llm db =
     andthen (generate_sql_app llm db query) (\<lambda>sql_result.
     andthen (run_query_app db sql_result) (\<lambda>(db_result, error).
     if truthy error then raise (Exception (''SQL Error: '' @ py_str error))
     else
       andthen (get_schema_app db) (\<lambda>schema.
       andthen (call_invoke llm (answer_prompt ''    '' schema query sql_result db_result))
         (\<lambda>response.
       ret response))))"

text \<open>
  What \<open>main\<close> shows: the calls of \<open>st.error\<close>, \<open>st.success\<close>, \<open>st.write\<close>,
  \<open>st.code\<close> and \<open>st.text\<close> in order. The fixed headings, the side bar and the
  information column carry no data of the pipeline and are left out.
\<close>

datatype ui = StError string | StSuccess string | StWrite string | StCode string | StText string

definition append_history :: "string \<times> string \<Rightarrow> ('w, unit) comp" where
  "append_history entry s = (Inr (), s\<lparr>query_history := query_history s @ [entry]\<rparr>)"

text \<open>
  One run of \<open>main\<close>, given the handles that \<open>init_database\<close> and \<open>get_llm\<close>
  returned, the text of the question box and whether the user presses the execute
  button. The button is disabled when the stripped text is empty, and a disabled button
  is never pressed.
\<close>

definition main ::
  "'w database option \<Rightarrow> 'w chat_model option \<Rightarrow> string \<Rightarrow> bool \<Rightarrow> ('w, ui list) comp" where
  "main db llm query_input pressed =
     (case (db, llm) of
        (Some d, Some l) \<Rightarrow>
          if pressed \<and> \<not> (strip query_input = []) then
            if strip query_input \<noteq> [] then
              try_except
                (andthen (answer_user_query query_input l db) (\<lambda>response.
                 andthen (generate_sql_app l db query_input) (\<lambda>generated_sql.
                 andthen (run_query_app db generated_sql) (\<lambda>(raw_results, sql_error).
                 andthen (append_history (query_input, response)) (\<lambda>_.
                 ret [StSuccess ''Query executed successfully!'',
                      StWrite response,
                      StCode generated_sql,
                      (if truthy raw_results then StText (py_str raw_results)
                       else StWrite ''No results returned'')])))))
                (\<lambda>e. ret [StError (''Error: '' @ message e)])
            else ret []
          else ret []
      | _ \<Rightarrow> ret [StError ''Failed to initialize application. Please check your configuration.''])"


subsection \<open>Predicates on strings and on the trace\<close>

text \<open>A string carries no whitespace at either end.\<close>

definition stripped :: "string \<Rightarrow> bool" where
  "stripped s = (case s of [] \<Rightarrow> True | c # _ \<Rightarrow> \<not> isspace c \<and> \<not> isspace (last s))"


fun is_answer_generation :: "event \<Rightarrow> bool" where
  "is_answer_generation (LlmInvoke ((role, text) # _) _) = (text = answer_system)"
| "is_answer_generation _ = False"


subsection \<open>Concrete collaborators for the examples\<close>

text \<open>
  The world of the examples counts the calls made so far. \<open>demo_db\<close> answers every
  query with one row; \<open>failing_db\<close> rejects every query with a message;
  \<open>silent_db\<close> rejects every query with an exception whose \<open>str\<close> is empty (as
  \<open>MemoryError()\<close> or a bare \<open>AssertionError()\<close> has). \<open>demo_llm\<close> answers the SQL
  prompt with a padded statement and any other prompt with a sentence;
  \<open>down_llm\<close> raises on every call.
\<close>

definition s0 :: "nat state" where
  "s0 = \<lparr>world = 0, trace = [], query_history = []\<rparr>"

definition demo_db :: "nat database" where
  "demo_db =
     \<lparr>get_table_info = (\<lambda>w. (Inr ''Artist(ArtistId, Name)'', Suc w)),
      run = (\<lambda>q w. (Inr ''[(275,)]'', Suc w))\<rparr>"

definition failing_db :: "nat database" where
  "failing_db =
     \<lparr>get_table_info = (\<lambda>w. (Inr ''Artist(ArtistId, Name)'', Suc w)),
      run = (\<lambda>q w. (Inl (Exception ''no such table: Artists''), Suc w))\<rparr>"

definition silent_db :: "nat database" where
  "silent_db =
     \<lparr>get_table_info = (\<lambda>w. (Inr ''Artist(ArtistId, Name)'', Suc w)),
      run = (\<lambda>q w. (Inl (Exception []), Suc w))\<rparr>"

definition demo_llm :: "nat chat_model" where
  "demo_llm =
     \<lparr>invoke = (\<lambda>p w.
        (if map snd (take 1 p) = [sql_system]
         then Inr ('' SELECT COUNT(*) FROM Artist;'' @ nl)
         else Inr ''There are 275 artists.'', Suc w))\<rparr>"

definition down_llm :: "nat chat_model" where
  "down_llm = \<lparr>invoke = (\<lambda>p w. (Inl (Exception ''model unavailable''), Suc w))\<rparr>"

section \<open>Properties\<close>

subsection \<open>Auxiliary facts\<close>

lemmas comp_defs = ret_def raise_def andthen_def try_except_def
  call_get_table_info_def call_run_def call_invoke_def

lemmas gradio_defs = process_query_def generate_sql_gradio_def run_query_gradio_def
  get_schema_gradio_def

lemmas app_defs = main_def answer_user_query_def generate_sql_app_def run_query_app_def
  get_schema_app_def append_history_def

lemmas prompt_defs = sql_prompt_def answer_prompt_def sql_system_def answer_system_def nl_def

lemmas demo_defs = s0_def demo_db_def failing_db_def silent_db_def demo_llm_def down_llm_def
  strip_def isspace_def stripped_def

lemma systems_differ [simp]: "answer_system \<noteq> sql_system" "sql_system \<noteq> answer_system"
  by (simp_all add: answer_system_def sql_system_def)



text \<open>The example runs, evaluated once and used by the examples below.\<close>

lemma s0_trace: "trace s0 = []"
  by (simp add: s0_def)


lemma demo_run:
  "process_query demo_db demo_llm ''How many artists?'' s0 =
     (Inr (''There are 275 artists.'', ''SELECT COUNT(*) FROM Artist;'', ''[(275,)]''),
      \<lparr>world = 5,
       trace = [GetTableInfo (Inr ''Artist(ArtistId, Name)''),
                LlmInvoke (sql_prompt ''Artist(ArtistId, Name)'' ''How many artists?'')
                  (Inr ('' SELECT COUNT(*) FROM Artist;'' @ nl)),
                DbRun ''SELECT COUNT(*) FROM Artist;'' (Inr ''[(275,)]''),
                GetTableInfo (Inr ''Artist(ArtistId, Name)''),
                LlmInvoke (answer_prompt ''        '' ''Artist(ArtistId, Name)'' ''How many artists?''
                             ''SELECT COUNT(*) FROM Artist;'' (Some ''[(275,)]''))
                  (Inr ''There are 275 artists.'')],
       query_history = []\<rparr>)"
  by (simp add: gradio_defs comp_defs demo_defs prompt_defs)

lemma failing_run:
  "process_query failing_db demo_llm ''How many artists?'' s0 =
     (Inr (''SQL Error: no such table: Artists'', ''SELECT COUNT(*) FROM Artist;'', []),
      \<lparr>world = 3,
       trace = [GetTableInfo (Inr ''Artist(ArtistId, Name)''),
                LlmInvoke (sql_prompt ''Artist(ArtistId, Name)'' ''How many artists?'')
                  (Inr ('' SELECT COUNT(*) FROM Artist;'' @ nl)),
                DbRun ''SELECT COUNT(*) FROM Artist;'' (Inl (Exception ''no such table: Artists''))],
       query_history = []\<rparr>)"
  by (simp add: gradio_defs comp_defs demo_defs prompt_defs)

lemma down_run:
  "process_query demo_db down_llm ''How many artists?'' s0 =
     (Inr (''Error: model unavailable'', [], []),
      \<lparr>world = 2,
       trace = [GetTableInfo (Inr ''Artist(ArtistId, Name)''),
                LlmInvoke (sql_prompt ''Artist(ArtistId, Name)'' ''How many artists?'')
                  (Inl (Exception ''model unavailable''))],
       query_history = []\<rparr>)"
  by (simp add: gradio_defs comp_defs demo_defs prompt_defs)

subsection \<open>Query execution\<close>

text \<open>
  C2. \<open>run_query\<close> never lets an exception of the database pass. In both files it
  returns normally, with \<open>(result, None)\<close> when \<open>db.run\<close> returned \<open>result\<close> and
  with \<open>(None, str(e))\<close> when \<open>db.run\<close> raised \<open>e\<close>; so exactly one of the two
  components is \<open>None\<close>.
\<close>

theorem run_query_never_raises:
  "(\<exists>result error s'.
      run_query_gradio db query s = (Inr (result, error), s') \<and>
      (result = None) \<noteq> (error = None) \<and>
      (case fst (run db query (world s)) of
         Inr r \<Rightarrow> result = Some r \<and> error = None
       | Inl e \<Rightarrow> result = None \<and> error = Some (message e)))
   \<and> (\<exists>result error s'.
      run_query_app (Some db) query s = (Inr (result, error), s') \<and>
      (result = None) \<noteq> (error = None) \<and>
      (case fst (run db query (world s)) of
         Inr r \<Rightarrow> result = Some r \<and> error = None
       | Inl e \<Rightarrow> result = None \<and> error = Some (message e)))"
  by (auto simp: gradio_defs app_defs comp_defs split: prod.splits sum.splits)

theorem run_query_never_raises_witness:
  "fst (run_query_gradio failing_db ''SELECT 1'' s0) = Inr (None, Some ''no such table: Artists'')
   \<and> fst (run_query_app (Some demo_db) ''SELECT 1'' s0) = Inr (Some ''[(275,)]'', None)"
  using run_query_never_raises [of failing_db "''SELECT 1''" s0]
    run_query_never_raises [of demo_db "''SELECT 1''" s0]
  by (auto simp: demo_defs)

text \<open>
  C10. In app.py, \<open>run_query\<close> with no database handle returns
  \<open>(None, "Database not connected")\<close> and leaves the state as it was: no call reaches
  a database, whatever the query.
\<close>

theorem run_query_without_handle:
  "run_query_app None query s = (Inr (None, Some ''Database not connected''), s)"
  by (simp add: run_query_app_def ret_def)

subsection \<open>SQL generation\<close>



subsection \<open>The composed entry point of gradio\_app.py\<close>



text \<open>
  C9. In a run of \<open>process_query\<close> that ends with the answer of the model (the last
  call is a model call that returned, after an execution), the SQL string returned for
  display is the string that was passed to \<open>db.run\<close>, and the answer returned is that
  of the model.
\<close>

theorem displayed_sql_is_executed_sql:
  assumes "process_query db llm question s = (Inr (answer, sql, raw), s')"
    and "trace s' = trace s @ evs"
    and "DbRun query out \<in> set evs"
    and "last evs = LlmInvoke p (Inr a)"
  shows "sql = query \<and> answer = a"
  using assms
  by (auto simp: gradio_defs comp_defs split: prod.splits sum.splits if_splits)

theorem displayed_sql_is_executed_sql_witness:
  "DbRun ''SELECT COUNT(*) FROM Artist;'' (Inr ''[(275,)]'') \<in> set (trace (snd (process_query demo_db demo_llm ''How many artists?'' s0)))
   \<and> fst (process_query demo_db demo_llm ''How many artists?'' s0) =
        Inr (''There are 275 artists.'', ''SELECT COUNT(*) FROM Artist;'', ''[(275,)]'')"
proof -
  have "''SELECT COUNT(*) FROM Artist;'' = ''SELECT COUNT(*) FROM Artist;''
      \<and> ''There are 275 artists.'' = ''There are 275 artists.''"
    by (rule displayed_sql_is_executed_sql [OF demo_run,
          where evs = "trace (snd (process_query demo_db demo_llm ''How many artists?'' s0))"
            and query = "''SELECT COUNT(*) FROM Artist;''" and out = "Inr ''[(275,)]''"
            and a = "''There are 275 artists.''"
            and p = "answer_prompt ''        '' ''Artist(ArtistId, Name)'' ''How many artists?''
                             ''SELECT COUNT(*) FROM Artist;'' (Some ''[(275,)]'')"])
      (simp_all add: demo_run s0_trace)
  then show ?thesis by (simp add: demo_run)
qed


lemma failing_main:
  "fst (main (Some failing_db) (Some demo_llm) ''How many artists?'' True s0) =
     Inr [StError ''Error: SQL Error: no such table: Artists'']"
  by (simp add: app_defs comp_defs demo_defs prompt_defs)

subsection \<open>The shapes of the outcome\<close>

text \<open>
  C1, as stated, fails: when the model is unreachable \<open>process_query\<close> returns an error
  description with an empty \<open>sql\<close>, which is neither of the two shapes.
\<close>

theorem answer_shapes_counterexample:
  "fst (process_query demo_db down_llm ''How many artists?'' s0) =
     Inr (''Error: model unavailable'', [], [])"
  by (simp add: down_run)

text \<open>
  C1, amended. For a question that is not blank, and a database whose failures carry a
  non-empty message, \<open>process_query\<close> returns one of three shapes, told apart by the
  last call of the run:
  \<^item> the answer of the model, with the SQL that was executed and the result of the
    database (either string may be empty);
  \<^item> \<open>"SQL Error: " + str(e)\<close> with the SQL that was executed and an empty raw
    result, when \<open>db.run\<close> raised \<open>e\<close>;
  \<^item> \<open>"Error: " + str(e)\<close> with empty SQL and empty raw result, when
    \<open>db.get_table_info\<close> or \<open>llm.invoke\<close> raised \<open>e\<close>.
  In app.py a pressed button on such a question shows either the success message, the
  answer, the SQL and the raw result (or a placeholder), or one \<open>"Error: ..."\<close>
  message.
\<close>

theorem answer_shapes:
  assumes "strip question \<noteq> []"
    and "\<forall>query w e w'. run db query w = (Inl e, w') \<longrightarrow> message e \<noteq> []"
  shows "(\<exists>answer sql raw s' evs.
      process_query db llm question s = (Inr (answer, sql, raw), s') \<and>
      trace s' = trace s @ evs \<and>
      ((\<exists>p. last evs = LlmInvoke p (Inr answer) \<and> DbRun sql (Inr raw) \<in> set evs)
       \<or> (\<exists>e. last evs = DbRun sql (Inl e) \<and> answer = ''SQL Error: '' @ message e \<and> raw = [])
       \<or> (\<exists>e. (last evs = GetTableInfo (Inl e) \<or> (\<exists>p. last evs = LlmInvoke p (Inl e))) \<and>
             answer = ''Error: '' @ message e \<and> sql = [] \<and> raw = [])))
    \<and> (\<exists>outs s'.
      main (Some db) (Some llm) question True s = (Inr outs, s') \<and>
      ((\<exists>answer sql shown.
          outs = [StSuccess ''Query executed successfully!'', StWrite answer, StCode sql, shown])
       \<or> (\<exists>m. outs = [StError (''Error: '' @ m)])))"
proof (rule conjI)
  show "\<exists>answer sql raw s' evs.
      process_query db llm question s = (Inr (answer, sql, raw), s') \<and>
      trace s' = trace s @ evs \<and>
      ((\<exists>p. last evs = LlmInvoke p (Inr answer) \<and> DbRun sql (Inr raw) \<in> set evs)
       \<or> (\<exists>e. last evs = DbRun sql (Inl e) \<and> answer = ''SQL Error: '' @ message e \<and> raw = [])
       \<or> (\<exists>e. (last evs = GetTableInfo (Inl e) \<or> (\<exists>p. last evs = LlmInvoke p (Inl e))) \<and>
             answer = ''Error: '' @ message e \<and> sql = [] \<and> raw = []))"
    using assms
    by (auto simp: gradio_defs comp_defs split: prod.splits sum.splits)
next
  show "\<exists>outs s'.
      main (Some db) (Some llm) question True s = (Inr outs, s') \<and>
      ((\<exists>answer sql shown.
          outs = [StSuccess ''Query executed successfully!'', StWrite answer, StCode sql, shown])
       \<or> (\<exists>m. outs = [StError (''Error: '' @ m)]))"
    using assms(1)
    by (auto simp: app_defs comp_defs split: prod.splits sum.splits)
qed

theorem answer_shapes_witness:
  "strip ''How many artists?'' \<noteq> []
   \<and> (\<forall>query w. fst (run failing_db query w) = Inl (Exception ''no such table: Artists''))
   \<and> fst (process_query failing_db demo_llm ''How many artists?'' s0) =
       Inr (''SQL Error: no such table: Artists'', ''SELECT COUNT(*) FROM Artist;'', [])
   \<and> fst (main (Some failing_db) (Some demo_llm) ''How many artists?'' True s0) =
       Inr [StError ''Error: SQL Error: no such table: Artists'']"
proof -
  have h1: "strip ''How many artists?'' \<noteq> []"
    by (simp add: strip_def isspace_def)
  have h2: "\<forall>query w e w'. run failing_db query w = (Inl e, w') \<longrightarrow> message e \<noteq> []"
    by (auto simp: failing_db_def)
  have h3: "\<forall>query w. fst (run failing_db query w) = Inl (Exception ''no such table: Artists'')"
    by (simp add: failing_db_def)
  note answer_shapes [OF h1 h2, of demo_llm s0]
  with h1 h3 show ?thesis
    by (simp add: failing_run failing_main)
qed

subsection \<open>Execution failure and the second model call\<close>

text \<open>
  C3 at the failing input: the database raises an exception whose \<open>str\<close> is empty.
  \<open>run_query\<close> reports the failure as \<open>(None, "")\<close>, the test \<open>if sql_error:\<close>
  takes the empty string for no error, and the run goes on: the fifth call is the
  answer generation, made after the failed execution, and the triple returned carries
  the model's answer and the rendering \<open>"None"\<close> of the missing result.
  \<open>answer_user_query\<close> of app.py has the same test and makes the same call.
\<close>

theorem silent_failure_reaches_answer_generation:
  "fst (run_query_gradio silent_db ''SELECT COUNT(*) FROM Artist;'' s0) = Inr (None, Some [])
   \<and> fst (process_query silent_db demo_llm ''How many artists?'' s0) =
       Inr (''There are 275 artists.'', ''SELECT COUNT(*) FROM Artist;'', ''None'')
   \<and> map is_answer_generation (trace (snd (process_query silent_db demo_llm ''How many artists?'' s0))) =
       [False, False, False, False, True]
   \<and> trace (snd (process_query silent_db demo_llm ''How many artists?'' s0)) ! 2 =
       DbRun ''SELECT COUNT(*) FROM Artist;'' (Inl (Exception []))
   \<and> fst (answer_user_query ''How many artists?'' demo_llm (Some silent_db) s0) =
       Inr ''There are 275 artists.''"
  by (simp add: gradio_defs app_defs comp_defs demo_defs prompt_defs)

subsection \<open>Blank questions\<close>

text \<open>
  C5, as stated, fails for app.py: on the empty question a pressed execute button shows
  nothing at all, so no message asks for input.
\<close>

theorem blank_question_counterexample:
  "main (Some demo_db) (Some demo_llm) [] True s0 = (Inr [], s0)"
  by (simp add: main_def ret_def strip_def)

text \<open>
  C5, amended. For a question that is empty once stripped, \<open>process_query\<close> returns
  \<open>"Please enter a question."\<close> with empty SQL and raw result, and the execute flow of
  app.py shows nothing; both leave the state as it was, so neither the model nor the
  database is called.
\<close>

theorem blank_question_short_circuits:
  assumes "strip question = []"
  shows "process_query db llm question s = (Inr (''Please enter a question.'', [], []), s)
    \<and> main (Some db) (Some llm) question pressed s = (Inr [], s)"
  using assms by (simp add: process_query_def main_def ret_def)

theorem blank_question_short_circuits_witness:
  "strip ''   '' = []
   \<and> process_query demo_db demo_llm ''   '' s0 = (Inr (''Please enter a question.'', [], []), s0)
   \<and> main (Some demo_db) (Some demo_llm) ''   '' True s0 = (Inr [], s0)"
proof -
  have h: "strip ''   '' = []"
    by (simp add: strip_def isspace_def)
  from blank_question_short_circuits [OF h, of demo_db demo_llm s0 True] h
  show ?thesis by simp
qed

subsection \<open>One generation and one execution per request\<close>




subsection \<open>A missing database handle\<close>

text \<open>
  C7, as stated, fails: with no database handle \<open>get_schema\<close> of app.py does not fail;
  it returns the text \<open>"Database not connected"\<close> as if it were the schema.
\<close>

theorem schema_without_handle_counterexample:
  "get_schema_app None s0 = (Inr ''Database not connected'', s0)"
  by (simp add: get_schema_app_def ret_def)

text \<open>
  C7, amended. With no database handle \<open>get_schema\<close> of app.py returns the text
  \<open>"Database not connected"\<close> and raises nothing. \<open>main\<close> stops before any
  generation when the database or the model is missing: it shows the initialisation
  error and leaves the state as it was, so no call is made.
\<close>

theorem missing_handle_stops_main:
  "get_schema_app None s = (Inr ''Database not connected'', s)
   \<and> (dbo = None \<or> llmo = None \<longrightarrow>
        main dbo llmo question pressed s =
          (Inr [StError ''Failed to initialize application. Please check your configuration.''], s))"
  by (auto simp: get_schema_app_def main_def ret_def split: option.splits)

theorem missing_handle_stops_main_witness:
  "main None (Some demo_llm) ''How many artists?'' True s0 =
     (Inr [StError ''Failed to initialize application. Please check your configuration.''], s0)"
  using missing_handle_stops_main [of s0 None "Some demo_llm" "''How many artists?''" True]
  by simp


end
